theory Spec2Isabelle
  imports Main
begin

section \<open>Python values, exceptions and results\<close>

text \<open>
  The development embeds \<^verbatim>\<open>Jira-api-example/JiraApi.py\<close>, class \<^verbatim>\<open>JiraAPI\<close>.

  A Python \<^verbatim>\<open>str\<close> is represented by its UTF-8 bytes, so \<^verbatim>\<open>str.encode()\<close> is the
  identity of the model and \<^verbatim>\<open>bytes.decode()\<close> succeeds exactly on well-formed UTF-8.
  Exceptions that derive from \<^verbatim>\<open>Exception\<close> are values of \<open>exn\<close>; \<^verbatim>\<open>SystemExit\<close>, raised
  by \<^verbatim>\<open>sys.exit\<close>, derives from \<^verbatim>\<open>BaseException\<close> only and is the separate outcome
  \<open>Exit\<close>, which no \<^verbatim>\<open>except Exception\<close> clause catches.
\<close>

datatype exn =
    BinasciiError | UnicodeDecodeError | ValueError | TypeError | AttributeError
  | UnboundLocalError | ContentTypeError | ClientConnectionError | ClientPayloadError
  | TimeoutError

datatype 'a result = Ret 'a | Raise exn | Exit nat

datatype json =
    JNull | JBool bool | JInt int | JStr string | JList "json list"
  | JObj "(string \<times> json) list"

section \<open>Library codecs used by the client\<close>

subsection \<open>\<^verbatim>\<open>base64.b64decode\<close> (non-strict) and \<^verbatim>\<open>bytes.decode\<close>\<close>

text \<open>Position of a character in the standard base64 alphabet, if it is in it.\<close>

definition b64val :: "char \<Rightarrow> nat option" where
  "b64val c =
     (let n = (of_char c :: nat) in
      if 65 \<le> n \<and> n \<le> 90 then Some (n - 65)
      else if 97 \<le> n \<and> n \<le> 122 then Some (n - 71)
      else if 48 \<le> n \<and> n \<le> 57 then Some (n + 4)
      else if n = 43 then Some 62
      else if n = 47 then Some 63
      else None)"

fun emit_byte :: "nat \<Rightarrow> string result \<Rightarrow> string result" where
  "emit_byte b (Ret bs) = Ret (char_of b # bs)"
| "emit_byte b (Raise e) = Raise e"
| "emit_byte b (Exit c) = Exit c"

text \<open>
  The decoding loop of \<^verbatim>\<open>binascii.a2b_base64\<close> without strict mode, which is what
  \<^verbatim>\<open>base64.b64decode(s)\<close> runs: characters outside the alphabet are skipped, a padding
  sequence that completes a quad ends the input, and data that stops inside a quad is an
  error. The arguments after the input are the position in the quad, the bits left over
  from the previous character and the count of padding characters seen.
\<close>

fun a2b_base64 :: "string \<Rightarrow> nat \<Rightarrow> nat \<Rightarrow> nat \<Rightarrow> string result" where
  "a2b_base64 [] quad_pos leftchar pads =
     (if quad_pos = 0 then Ret [] else Raise BinasciiError)"
| "a2b_base64 (c # cs) quad_pos leftchar pads =
     (if c = CHR ''='' then
        (if 2 \<le> quad_pos then
           (if 4 \<le> quad_pos + (pads + 1) then Ret []
            else a2b_base64 cs quad_pos leftchar (pads + 1))
         else a2b_base64 cs quad_pos leftchar pads)
      else
        (case b64val c of
           None \<Rightarrow> a2b_base64 cs quad_pos leftchar pads
         | Some v \<Rightarrow>
             (if quad_pos = 0 then a2b_base64 cs 1 v 0
              else if quad_pos = 1 then
                emit_byte (leftchar * 4 + v div 16) (a2b_base64 cs 2 (v mod 16) 0)
              else if quad_pos = 2 then
                emit_byte (leftchar * 16 + v div 4) (a2b_base64 cs 3 (v mod 4) 0)
              else emit_byte (leftchar * 64 + v) (a2b_base64 cs 0 0 0))))"

definition b64decode :: "string \<Rightarrow> string result" where
  "b64decode s = a2b_base64 s 0 0 0"

definition cont_byte :: "char \<Rightarrow> bool" where
  "cont_byte c = (128 \<le> (of_char c :: nat) \<and> (of_char c :: nat) \<le> 191)"

definition in_range :: "nat \<Rightarrow> nat \<Rightarrow> char \<Rightarrow> bool" where
  "in_range lo hi c = (lo \<le> (of_char c :: nat) \<and> (of_char c :: nat) \<le> hi)"

text \<open>Well-formed UTF-8, as the strict decoder of \<^verbatim>\<open>bytes.decode()\<close> accepts it.\<close>

fun valid_utf8 :: "string \<Rightarrow> bool" where
  "valid_utf8 [] = True"
| "valid_utf8 (a # cs) =
     (if in_range 0 127 a then valid_utf8 cs
      else if in_range 194 223 a then
        (case cs of b # r \<Rightarrow> cont_byte b \<and> valid_utf8 r | _ \<Rightarrow> False)
      else if in_range 224 239 a then
        (case cs of
           b # c # r \<Rightarrow>
             (if in_range 224 224 a then in_range 160 191 b
              else if in_range 237 237 a then in_range 128 159 b
              else cont_byte b) \<and> cont_byte c \<and> valid_utf8 r
         | _ \<Rightarrow> False)
      else if in_range 240 244 a then
        (case cs of
           b # c # d # r \<Rightarrow>
             (if in_range 240 240 a then in_range 144 191 b
              else if in_range 244 244 a then in_range 128 143 b
              else cont_byte b) \<and> cont_byte c \<and> cont_byte d \<and> valid_utf8 r
         | _ \<Rightarrow> False)
      else False)"

definition decode :: "string \<Rightarrow> string result" where
  "decode bs = (if valid_utf8 bs then Ret bs else Raise UnicodeDecodeError)"

subsection \<open>Base64 encoding (RFC 4648), for comparison\<close>

definition b64chars :: string where
  "b64chars = ''ABCDEFGHIJKLMNOPQRSTUVWXYZabcdefghijklmnopqrstuvwxyz0123456789+/''"

definition b64char :: "nat \<Rightarrow> char" where
  "b64char n = b64chars ! (n mod 64)"

fun b64encode :: "string \<Rightarrow> string" where
  "b64encode [] = []"
| "b64encode [a] =
     (let x = (of_char a :: nat) in
      [b64char (x div 4), b64char ((x mod 4) * 16), CHR ''='', CHR ''=''])"
| "b64encode [a, b] =
     (let x = (of_char a :: nat); y = (of_char b :: nat) in
      [b64char (x div 4), b64char ((x mod 4) * 16 + y div 16),
       b64char ((y mod 16) * 4), CHR ''=''])"
| "b64encode (a # b # c # r) =
     (let x = (of_char a :: nat); y = (of_char b :: nat); z = (of_char c :: nat) in
      b64char (x div 4) # b64char ((x mod 4) * 16 + y div 16) #
      b64char ((y mod 16) * 4 + z div 64) # b64char (z mod 64) # b64encode r)"

subsection \<open>\<^verbatim>\<open>urllib.parse.quote\<close> and \<^verbatim>\<open>str\<close> of a number\<close>

definition always_safe :: string where
  "always_safe = ''ABCDEFGHIJKLMNOPQRSTUVWXYZabcdefghijklmnopqrstuvwxyz0123456789_.-~''"

definition hexdigit :: "nat \<Rightarrow> char" where
  "hexdigit n = ''0123456789ABCDEF'' ! (n mod 16)"

text \<open>
  \<^verbatim>\<open>quote(string, safe)\<close> keeps the bytes that are always safe or listed in \<^verbatim>\<open>safe\<close>
  and writes every other byte of the UTF-8 encoding as \<^verbatim>\<open>%XX\<close>.
\<close>

definition quote_byte :: "string \<Rightarrow> char \<Rightarrow> string" where
  "quote_byte safe c =
     (if c \<in> set always_safe \<or> c \<in> set safe then [c]
      else [CHR ''%'', hexdigit ((of_char c :: nat) div 16), hexdigit ((of_char c :: nat) mod 16)])"

definition quote :: "string \<Rightarrow> string \<Rightarrow> string" where
  "quote s safe = concat (map (quote_byte safe) s)"

fun str_nat :: "nat \<Rightarrow> string" where
  "str_nat n =
     (if n < 10 then [char_of (48 + n)]
      else str_nat (n div 10) @ [char_of (48 + n mod 10)])"

declare str_nat.simps [simp del]

subsection \<open>\<^verbatim>\<open>range\<close>\<close>

function range_from :: "int \<Rightarrow> int \<Rightarrow> int \<Rightarrow> int list" where
  "range_from i stop step =
     (if 0 < step \<and> i < stop then i # range_from (i + step) stop step else [])"
  by pat_completeness auto
termination
  by (relation "measure (\<lambda>(i, stop, step). nat (stop - i))") auto

declare range_from.simps [simp del]

section \<open>Effects: log lines and requests on the wire\<close>

datatype level = DEBUG | INFO | SUCCESS | ERROR

text \<open>One constructor for each log line of the source, with the values it formats.\<close>

datatype message =
    NoCredentials
  | AuthenticationSuccessful nat
  | AuthenticationFailed nat string
  | AuthenticationError exn
  | UrlIs string
  | NoResponse
  | ResourceNotFound string
  | ErrorDuringRequest nat string
  | StatusCode nat
  | NoJql
  | FoundIssues json
  | FetchingData string int
  | ErrorFetchingStatus string nat
  | ErrorFetchingReason string exn

record http_request =
  http_method :: string
  http_url :: string
  http_params :: "(string \<times> int) list"
  http_headers :: "(string \<times> string) list"

datatype event = Log level message | Send http_request

text \<open>
  The body of a response: \<open>Unreadable\<close> when \<^verbatim>\<open>response.text()\<close> raises, \<open>NotJson\<close>
  when the text is read and \<^verbatim>\<open>response.json()\<close> raises, \<open>Json j\<close> when
  \<^verbatim>\<open>response.json()\<close> is \<open>j\<close>. Numbers with a fraction are left out of \<open>json\<close>.
\<close>

datatype body = Unreadable | NotJson | Json json

record ClientResponse =
  status :: nat
  reason :: string
  real_url :: string
  content :: body

text \<open>
  What one attempt on the wire produces, and the remote side: what it would answer to the
  \<open>k\<close>-th attempt of the initial request of a call, and to the \<open>k\<close>-th attempt of the
  page request with \<^verbatim>\<open>startAt = s\<close>. Attempts count from 1. \<open>Fail e\<close> is an exception
  raised in place of a response.
\<close>

datatype outcome = Resp ClientResponse | Fail exn

record remote =
  probe :: "nat \<Rightarrow> outcome"
  page :: "int \<Rightarrow> nat \<Rightarrow> outcome"

text \<open>
  A computation yields its result and the events it caused, in order. \<open>bind\<close> is
  sequencing; \<open>try_except\<close> is \<^verbatim>\<open>try: ... except Exception as e: ...\<close>, which lets
  \<open>Exit\<close> through.
\<close>

type_synonym 'a io = "'a result \<times> event list"

definition ret :: "'a \<Rightarrow> 'a io" where
  "ret x = (Ret x, [])"

definition raise :: "exn \<Rightarrow> 'a io" where
  "raise e = (Raise e, [])"

definition sys_exit :: "nat \<Rightarrow> 'a io" where
  "sys_exit c = (Exit c, [])"

definition lift :: "'a result \<Rightarrow> 'a io" where
  "lift r = (r, [])"

definition logger :: "level \<Rightarrow> message \<Rightarrow> unit io" where
  "logger l m = (Ret (), [Log l m])"

definition bind :: "'a io \<Rightarrow> ('a \<Rightarrow> 'b io) \<Rightarrow> 'b io" where
  "bind m f =
     (case m of
        (Ret x, t) \<Rightarrow> (case f x of (r, t') \<Rightarrow> (r, t @ t'))
      | (Raise e, t) \<Rightarrow> (Raise e, t)
      | (Exit c, t) \<Rightarrow> (Exit c, t))"

definition try_except :: "'a io \<Rightarrow> (exn \<Rightarrow> 'a io) \<Rightarrow> 'a io" where
  "try_except m handler =
     (case m of
        (Raise e, t) \<Rightarrow> (case handler e of (r, t') \<Rightarrow> (r, t @ t'))
      | (Ret x, t) \<Rightarrow> (Ret x, t)
      | (Exit c, t) \<Rightarrow> (Exit c, t))"

text \<open>
  \<^verbatim>\<open>asyncio.gather(*tasks)\<close>: every task runs, the results come back in the order of the
  tasks, and an exception of a task is raised to the caller. The tasks share no state, so
  their interleaving is not modelled: events are listed task by task.
\<close>

fun gather :: "'a io list \<Rightarrow> 'a list io" where
  "gather [] = (Ret [], [])"
| "gather (t # ts) =
     (case t of (r, tr) \<Rightarrow>
      (case gather ts of (rs, trs) \<Rightarrow>
        ((case r of
            Ret x \<Rightarrow> (case rs of Ret xs \<Rightarrow> Ret (x # xs) | Raise e \<Rightarrow> Raise e | Exit c \<Rightarrow> Exit c)
          | Raise e \<Rightarrow> Raise e
          | Exit c \<Rightarrow> Exit c), tr @ trs)))"

section \<open>Sessions\<close>

text \<open>
  \<open>ClientSession\<close> is a plain \<^verbatim>\<open>aiohttp.ClientSession\<close>: a request is one attempt.
  \<open>RetryClient n on_status on_exn\<close> is an \<^verbatim>\<open>aiohttp_retry.RetryClient\<close> that makes up
  to \<open>n\<close> attempts: an attempt that ends in a status for which \<open>on_status\<close> holds, or in
  an exception for which \<open>on_exn\<close> holds, is repeated while attempts remain, and the
  outcome of the last attempt made is the outcome of the request. At least one attempt
  is made.
\<close>

datatype session = ClientSession | RetryClient nat "nat \<Rightarrow> bool" "exn \<Rightarrow> bool"

definition retryable :: "(nat \<Rightarrow> bool) \<Rightarrow> (exn \<Rightarrow> bool) \<Rightarrow> outcome \<Rightarrow> bool" where
  "retryable on_status on_exn out =
     (case out of Resp r \<Rightarrow> on_status (status r) | Fail e \<Rightarrow> on_exn e)"

text \<open>
  The retry loop from attempt \<open>i\<close> with \<open>k\<close> further attempts allowed: the outcome the
  caller gets and the number of the attempt that produced it.
\<close>

fun retry_loop ::
  "(nat \<Rightarrow> bool) \<Rightarrow> (exn \<Rightarrow> bool) \<Rightarrow> (nat \<Rightarrow> outcome) \<Rightarrow> nat \<Rightarrow> nat \<Rightarrow> outcome \<times> nat" where
  "retry_loop on_status on_exn srv i 0 = (srv i, i)"
| "retry_loop on_status on_exn srv i (Suc k) =
     (if retryable on_status on_exn (srv i) then retry_loop on_status on_exn srv (Suc i) k
      else (srv i, i))"

definition session_outcome :: "session \<Rightarrow> (nat \<Rightarrow> outcome) \<Rightarrow> outcome \<times> nat" where
  "session_outcome s srv =
     (case s of
        ClientSession \<Rightarrow> (srv 1, 1)
      | RetryClient n on_status on_exn \<Rightarrow> retry_loop on_status on_exn srv 1 (n - 1))"

text \<open>A request that took \<open>n\<close> attempts was sent \<open>n\<close> times.\<close>

definition transmit :: "http_request \<Rightarrow> outcome \<times> nat \<Rightarrow> ClientResponse io" where
  "transmit req out =
     (case out of
        (Resp r, n) \<Rightarrow> (Ret r, replicate n (Send req))
      | (Fail e, n) \<Rightarrow> (Raise e, replicate n (Send req)))"

text \<open>
  \<^verbatim>\<open>session.request(method=..., url=..., headers=..., params=...)\<close>, as \<^verbatim>\<open>fetch\<close> calls
  it, sends the request.
\<close>

definition session_request :: "session \<Rightarrow> http_request \<Rightarrow> (nat \<Rightarrow> outcome) \<Rightarrow> ClientResponse io" where
  "session_request s req srv = transmit req (session_outcome s srv)"

text \<open>
  \<^verbatim>\<open>session.requests(method, url, params, headers, data)\<close>, as \<^verbatim>\<open>request\<close> calls it, is a
  call with five positional arguments. The method \<^verbatim>\<open>requests\<close> of the retry client takes
  a list of request parameters, the retry options and a flag, so the call raises
  \<^verbatim>\<open>TypeError\<close> before anything is sent; a plain client session has no attribute
  \<^verbatim>\<open>requests\<close>. Whatever the remote would answer is not asked for.
\<close>

definition session_requests :: "session \<Rightarrow> http_request \<Rightarrow> (nat \<Rightarrow> outcome) \<Rightarrow> ClientResponse io" where
  "session_requests s req srv =
     (case s of
        ClientSession \<Rightarrow> raise AttributeError
      | RetryClient n on_status on_exn \<Rightarrow> raise TypeError)"

definition response_text :: "ClientResponse \<Rightarrow> unit result" where
  "response_text r = (case content r of Unreadable \<Rightarrow> Raise ClientPayloadError | _ \<Rightarrow> Ret ())"

definition response_json :: "ClientResponse \<Rightarrow> json result" where
  "response_json r =
     (case content r of
        Unreadable \<Rightarrow> Raise ClientPayloadError
      | NotJson \<Rightarrow> Raise ContentTypeError
      | Json j \<Rightarrow> Ret j)"

section \<open>The client\<close>

record JiraAPI =
  jira_host :: string
  jira_username :: string
  jira_password :: string
  attempts :: nat
  max_results :: nat
  retry_statuses :: "nat list"

text \<open>
  \<^verbatim>\<open>__init__\<close>: the page size is the constant 20 and the retried statuses are
  500, 502, 503 and 504, kept in \<^verbatim>\<open>self.retry_options\<close>. The \<^verbatim>\<open>timeout\<close> is a float of
  seconds and the retried exception class is \<^verbatim>\<open>aiohttp.ClientError\<close>; neither has a part
  in the model.
\<close>

definition init :: "string \<Rightarrow> string \<Rightarrow> string \<Rightarrow> nat \<Rightarrow> JiraAPI" where
  "init host username password n =
     \<lparr>jira_host = host, jira_username = username, jira_password = password,
      attempts = n, max_results = 20, retry_statuses = [500, 502, 503, 504]\<rparr>"

text \<open>
  \<^verbatim>\<open>get_auth_header\<close>: the credential pair is passed to \<^verbatim>\<open>base64.b64decode\<close> and the
  bytes that come out are decoded as text.
\<close>

definition get_auth_header :: "JiraAPI \<Rightarrow> string result" where
  "get_auth_header self =
     (case b64decode (jira_username self @ '':'' @ jira_password self) of
        Ret bs \<Rightarrow> decode bs
      | Raise e \<Rightarrow> Raise e
      | Exit c \<Rightarrow> Exit c)"

text \<open>
  \<^verbatim>\<open>aiohttp_retry.RetryClient(session, **self.retry_options)\<close>: the options are passed
  as keyword arguments of the constructor, which takes its retry options in one
  argument \<^verbatim>\<open>retry_options\<close> and, given a session, has no use for other keywords. The
  client therefore retries as the library does by default: three attempts, on every
  status from 500 on and on no exception. No request of the source passes through it:
  \<^verbatim>\<open>request\<close> fails at the call, and \<^verbatim>\<open>fetch\<close> is given the plain session.
\<close>

definition retry_client :: "JiraAPI \<Rightarrow> session" where
  "retry_client self = RetryClient 3 (\<lambda>st. 500 \<le> st) (\<lambda>e. False)"

text \<open>
  \<^verbatim>\<open>handle_response\<close>. \<^verbatim>\<open>raise_for_status()\<close> raises \<^verbatim>\<open>ClientResponseError\<close> for a
  status of 400 or more and does nothing below. Its handler logs and calls
  \<^verbatim>\<open>sys.exit(1)\<close>; the line \<^verbatim>\<open>logger.error(await e.text())\<close> sits in a \<^verbatim>\<open>try\<close> with a bare
  \<^verbatim>\<open>except: pass\<close> and the exception has no \<^verbatim>\<open>text\<close>, so it logs nothing. Below 400 the
  text of the body is read, the local dictionary \<^verbatim>\<open>error\<close> is filled and dropped, and
  the response itself is returned. Without a response the dictionary is returned.
\<close>

datatype handled = HDict "(string \<times> json) list" | HResp ClientResponse

definition handle_response :: "ClientResponse option \<Rightarrow> handled io" where
  "handle_response response =
     (case response of
        None \<Rightarrow>
          bind (logger ERROR NoResponse) (\<lambda>_.
          ret (HDict [(''Result'', JNull), (''Raw_text'', JNull)]))
      | Some r \<Rightarrow>
          if 400 \<le> status r then
            bind (if status r = 404 then logger ERROR (ResourceNotFound (real_url r))
                  else bind (logger ERROR (ErrorDuringRequest (status r) (reason r))) (\<lambda>_.
                       logger ERROR (StatusCode (status r)))) (\<lambda>_.
            sys_exit 1)
          else
            bind (lift (response_text r)) (\<lambda>_.
            ret (HResp r)))"

definition api_url :: "JiraAPI \<Rightarrow> string \<Rightarrow> string" where
  "api_url self pattern = jira_host self @ ''/rest/api/2/'' @ pattern"

definition request :: "JiraAPI \<Rightarrow> remote \<Rightarrow> session \<Rightarrow> string \<Rightarrow> handled io" where
  "request self w session pattern =
     bind (logger INFO (UrlIs (api_url self pattern))) (\<lambda>_.
     bind (lift (get_auth_header self)) (\<lambda>h.
     bind (session_requests session
             \<lparr>http_method = ''GET'', http_url = api_url self pattern, http_params = [],
              http_headers = [(''Content-Type'', ''application/json''),
                              (''Authorization'', ''Basic: '' @ h)]\<rparr>
             (probe w)) (\<lambda>response.
     handle_response (Some response))))"

text \<open>Reading \<^verbatim>\<open>.status\<close> and calling \<^verbatim>\<open>.json()\<close> on what \<^verbatim>\<open>request\<close> returned.\<close>

definition status_of :: "handled \<Rightarrow> nat result" where
  "status_of x = (case x of HResp r \<Rightarrow> Ret (status r) | HDict d \<Rightarrow> Raise AttributeError)"

definition reason_of :: "handled \<Rightarrow> string result" where
  "reason_of x = (case x of HResp r \<Rightarrow> Ret (reason r) | HDict d \<Rightarrow> Raise AttributeError)"

definition json_of :: "handled \<Rightarrow> json result" where
  "json_of x = (case x of HResp r \<Rightarrow> response_json r | HDict d \<Rightarrow> Raise AttributeError)"

text \<open>
  \<^verbatim>\<open>authenticate\<close>. The guard is \<^verbatim>\<open>not self.jira_username or self.jira_password\<close>.
\<close>

definition authenticate :: "JiraAPI \<Rightarrow> remote \<Rightarrow> bool io" where
  "authenticate self w =
     (if jira_username self = [] \<or> jira_password self \<noteq> [] then
        bind (logger ERROR NoCredentials) (\<lambda>_. ret False)
      else
        try_except
          (bind (request self w (retry_client self) ''mypermissions'') (\<lambda>response.
           bind (lift (status_of response)) (\<lambda>st.
           if 200 \<le> st \<and> st < 300 then
             bind (logger SUCCESS (AuthenticationSuccessful st)) (\<lambda>_. ret True)
           else
             bind (lift (reason_of response)) (\<lambda>rs.
             bind (logger ERROR (AuthenticationFailed st rs)) (\<lambda>_. ret False)))))
          (\<lambda>e. bind (logger ERROR (AuthenticationError e)) (\<lambda>_. ret False)))"

text \<open>
  \<^verbatim>\<open>initialize\<close>: \<^verbatim>\<open>sys.exit\<close> with a message is exit status 1.
\<close>

definition initialize :: "JiraAPI \<Rightarrow> remote \<Rightarrow> unit io" where
  "initialize self w =
     bind (authenticate self w) (\<lambda>ok. if ok then ret () else sys_exit 1)"

text \<open>
  \<^verbatim>\<open>fetch\<close>. The \<^verbatim>\<open>except\<close> clause formats \<^verbatim>\<open>url\<close>, which is assigned inside the \<^verbatim>\<open>try\<close>
  after the headers are built: when \<^verbatim>\<open>get_auth_header\<close> raises, the handler itself
  raises \<^verbatim>\<open>UnboundLocalError\<close>. The empty list it returns is \<open>JList []\<close>.
\<close>

definition fetch :: "JiraAPI \<Rightarrow> remote \<Rightarrow> session \<Rightarrow> string \<Rightarrow> int \<Rightarrow> json io" where
  "fetch self w session pattern start =
     bind (logger DEBUG (FetchingData (api_url self pattern) start)) (\<lambda>_.
     case get_auth_header self of
       Raise e \<Rightarrow> raise UnboundLocalError
     | Exit c \<Rightarrow> sys_exit c
     | Ret h \<Rightarrow>
         try_except
           (bind (session_request session
                    \<lparr>http_method = ''GET'', http_url = api_url self pattern,
                     http_params = [(''startAt'', start)],
                     http_headers = [(''Content-Type'', ''application/json''),
                                     (''Authorization'', ''Basic '' @ h)]\<rparr>
                    (page w start)) (\<lambda>response.
            if status response = 200 then lift (response_json response)
            else
              bind (logger ERROR (ErrorFetchingStatus (api_url self pattern) (status response))) (\<lambda>_.
              ret (JList []))))
           (\<lambda>e. bind (logger ERROR (ErrorFetchingReason (api_url self pattern) e)) (\<lambda>_.
                ret (JList []))))"

text \<open>
  \<^verbatim>\<open>data.get("total", 0)\<close> needs a dictionary; \<^verbatim>\<open>range(0, issues, self.max_results)\<close>
  needs an integer (a boolean counts as one) and a step that is not zero.
\<close>

definition dict_get :: "json \<Rightarrow> string \<Rightarrow> json \<Rightarrow> json result" where
  "dict_get d k dflt =
     (case d of
        JObj kvs \<Rightarrow> (case map_of kvs k of None \<Rightarrow> Ret dflt | Some v \<Rightarrow> Ret v)
      | _ \<Rightarrow> Raise AttributeError)"

definition py_range :: "json \<Rightarrow> nat \<Rightarrow> int list result" where
  "py_range stop step =
     (case stop of
        JInt n \<Rightarrow> if step = 0 then Raise ValueError else Ret (range_from 0 n (int step))
      | JBool b \<Rightarrow>
          if step = 0 then Raise ValueError
          else Ret (range_from 0 (if b then 1 else 0) (int step))
      | _ \<Rightarrow> Raise TypeError)"

definition search_pattern :: "JiraAPI \<Rightarrow> string \<Rightarrow> string \<Rightarrow> string \<Rightarrow> string" where
  "search_pattern self jql expand fields' =
     ''search?jql='' @ quote jql ''/?:=,&'' @ ''&maxResults='' @ str_nat (max_results self)
       @ ''&expand='' @ expand @ ''&fields='' @ fields'"

text \<open>
  The part of \<^verbatim>\<open>select\<close> that follows the initial request (lines 224 to 237), as a
  function of what \<^verbatim>\<open>request\<close> returned: \<^verbatim>\<open>results\<close> is assigned only in the branch of
  status 200, and \<^verbatim>\<open>return results\<close> follows the branch. The page tasks are given
  \<^verbatim>\<open>session\<close>, the plain client session.
\<close>

definition select_pages :: "JiraAPI \<Rightarrow> remote \<Rightarrow> string \<Rightarrow> handled \<Rightarrow> json list io" where
  "select_pages self w pattern response =
     bind (lift (status_of response)) (\<lambda>st.
     if st = 200 then
       bind (lift (json_of response)) (\<lambda>data.
       bind (lift (dict_get data ''total'' (JInt 0))) (\<lambda>issues.
       bind (logger INFO (FoundIssues issues)) (\<lambda>_.
       bind (lift (py_range issues (max_results self))) (\<lambda>starts.
       gather (map (fetch self w ClientSession pattern) starts)))))
     else raise UnboundLocalError)"

text \<open>
  \<^verbatim>\<open>select\<close>: the check of the query, the initial request through the retry client, and
  the part above.
\<close>

definition select :: "JiraAPI \<Rightarrow> remote \<Rightarrow> string option \<Rightarrow> string \<Rightarrow> string \<Rightarrow> json list io" where
  "select self w jql expand fields' =
     (case jql of
        None \<Rightarrow> bind (logger ERROR NoJql) (\<lambda>_. sys_exit 1)
      | Some q \<Rightarrow>
          if q = [] then bind (logger ERROR NoJql) (\<lambda>_. sys_exit 1)
          else
            bind (request self w (retry_client self) (search_pattern self q expand fields'))
              (select_pages self w (search_pattern self q expand fields')))"

text \<open>Reading a trace: the requests sent, and the \<^verbatim>\<open>startAt\<close> offsets among them.\<close>

fun sent :: "event list \<Rightarrow> http_request list" where
  "sent [] = []"
| "sent (Send req # es) = req # sent es"
| "sent (Log l m # es) = sent es"




section \<open>Example inputs\<close>

text \<open>
  A client whose credentials pass the guard of \<^verbatim>\<open>authenticate\<close> (the password is
  empty) and whose header can be built (\<^verbatim>\<open>YWJj:\<close> decodes to \<^verbatim>\<open>abc\<close>), and remote sides
  for it: \<open>status_remote st\<close> would answer the initial request with status \<open>st\<close> and a
  total of 45; \<open>demo_remote\<close> reports 45 issues, serves the page at 0, answers 503 at 20
  and drops the connection at 40; \<open>flaky_remote\<close> reports one issue and answers every
  first attempt of a page with 503, every later attempt with the page. \<open>search_x\<close> is the
  pattern of the query \<^verbatim>\<open>project = X\<close>.
\<close>

definition mk_response :: "nat \<Rightarrow> body \<Rightarrow> ClientResponse" where
  "mk_response st b = \<lparr>status = st, reason = [], real_url = [], content = b\<rparr>"

definition demo_api :: JiraAPI where
  "demo_api = init ''https://jira'' ''YWJj'' [] 3"

definition demo_page :: json where
  "demo_page = JObj [(''startAt'', JInt 0), (''issues'', JList [JObj [(''key'', JStr ''X-1'')]])]"



definition flaky_remote :: remote where
  "flaky_remote =
     \<lparr>probe = (\<lambda>k. Resp (mk_response 200 (Json (JObj [(''total'', JInt 1)])))),
      page = (\<lambda>s k. if k = 1 then Resp (mk_response 503 NotJson)
                      else Resp (mk_response 200 (Json demo_page)))\<rparr>"

definition search_x :: string where
  "search_x = search_pattern demo_api ''project = X'' ''changelog'' ''*all''"

section \<open>Sequencing lemmas\<close>

lemma bind_Ret: "bind (Ret x, t) f = (fst (f x), t @ snd (f x))"
  by (simp add: bind_def split: prod.splits)

lemma bind_Raise: "bind (Raise e, t) f = (Raise e, t)"
  by (simp add: bind_def)

lemma bind_Exit: "bind (Exit c, t) f = (Exit c, t)"
  by (simp add: bind_def)

lemma bind_logger: "bind (logger l m) f = (fst (f ()), Log l m # snd (f ()))"
  by (simp add: logger_def bind_Ret)

lemma bind_lift_Ret: "bind (lift (Ret x)) f = f x"
  by (simp add: lift_def bind_Ret)

lemma bind_lift_Raise: "bind (lift (Raise e)) f = (Raise e, [])"
  by (simp add: lift_def bind_Raise)

section \<open>Traces\<close>






section \<open>The range of offsets\<close>





section \<open>The initial request\<close>

lemma emit_byte_Exit: "emit_byte b r = Exit c \<longleftrightarrow> r = Exit c"
  by (cases r) simp_all

lemma a2b_base64_no_exit: "a2b_base64 s q l p \<noteq> Exit c"
  by (induction s arbitrary: q l p) (simp_all add: emit_byte_Exit split: option.splits)

lemma get_auth_header_no_exit: "get_auth_header self \<noteq> Exit c"
  using a2b_base64_no_exit [of "jira_username self @ '':'' @ jira_password self" 0 0 0]
  by (simp add: get_auth_header_def b64decode_def decode_def split: result.splits)

lemma request_raises:
  "fst (request self w (retry_client self) pat) =
     (case get_auth_header self of Ret h \<Rightarrow> Raise TypeError | Raise e \<Rightarrow> Raise e | Exit c \<Rightarrow> Exit c) \<and>
   snd (request self w (retry_client self) pat) = [Log INFO (UrlIs (api_url self pat))]"
  by (cases "get_auth_header self")
     (simp_all add: request_def bind_logger bind_lift_Ret bind_lift_Raise session_requests_def
        retry_client_def raise_def bind_Ret bind_Raise lift_def bind_Exit)

section \<open>The page tasks\<close>









section \<open>The example inputs, evaluated\<close>




lemma str_nat_20: "str_nat 20 = ''20''"
  by code_simp


section \<open>The authentication header\<close>

text \<open>
  Claim C5 says that the Basic header value is the base64 encoding of
  \<^verbatim>\<open>username:secret\<close>. \<^verbatim>\<open>get_auth_header\<close> calls \<^verbatim>\<open>b64decode\<close> where the encoding is
  meant. With the credentials of \<^verbatim>\<open>main.py\<close> the call raises \<^verbatim>\<open>UnicodeDecodeError\<close>, and
  where it returns (user \<^verbatim>\<open>YWJj\<close>, secret \<^verbatim>\<open>ZGVm\<close>) the value is the decoding
  \<^verbatim>\<open>abcdef\<close> of the pair, not its encoding.
\<close>

theorem get_auth_header_decodes_credentials:
  "get_auth_header (init ''jira_host'' ''jira_username'' ''jira_password'' 3)
     = Raise UnicodeDecodeError \<and>
   b64encode ''jira_username:jira_password'' = ''amlyYV91c2VybmFtZTpqaXJhX3Bhc3N3b3Jk'' \<and>
   get_auth_header (init ''jira_host'' ''YWJj'' ''ZGVm'' 3) = Ret ''abcdef'' \<and>
   b64encode ''YWJj:ZGVm'' = ''WVdKajpaR1Zt''"
  by code_simp

section \<open>Query validation\<close>

text \<open>
  Claim C6: \<^verbatim>\<open>select\<close> with a missing or empty query logs the error and leaves through
  \<^verbatim>\<open>sys.exit(1)\<close>; the trace holds the log line only, so no request is sent.
\<close>

theorem select_rejects_empty_query:
  "select self w None expand fields' = (Exit 1, [Log ERROR NoJql]) \<and>
   select self w (Some []) expand fields' = (Exit 1, [Log ERROR NoJql]) \<and>
   sent [Log ERROR NoJql] = []"
  by (simp add: select_def bind_logger sys_exit_def)

section \<open>Response handling\<close>

text \<open>
  Claim C8 says that every response with a status outside 2xx is logged and ends the
  process. A response with status 304 is outside 2xx, and \<^verbatim>\<open>handle_response\<close> returns
  it without a log line and without leaving the process.
\<close>

theorem handle_response_returns_304:
  "handle_response
     (Some \<lparr>status = 304, reason = ''Not Modified'',
            real_url = ''https://jira/rest/api/2/mypermissions'', content = NotJson\<rparr>) =
   (Ret (HResp \<lparr>status = 304, reason = ''Not Modified'',
            real_url = ''https://jira/rest/api/2/mypermissions'', content = NotJson\<rparr>), [])"
  by (simp add: handle_response_def response_text_def bind_lift_Ret ret_def)

text \<open>
  Claim C8, amended: for every response with a status of 400 or more, \<^verbatim>\<open>handle_response\<close>
  logs the error, with status code and reason, or for a 404 with the distinct line
  that the resource was not found, and then leaves through \<^verbatim>\<open>sys.exit(1)\<close> in place of
  returning an error value.
\<close>

theorem handle_response_exits_from_400:
  assumes "400 \<le> status r"
  shows "handle_response (Some r) =
        (Exit 1,
         if status r = 404 then [Log ERROR (ResourceNotFound (real_url r))]
         else [Log ERROR (ErrorDuringRequest (status r) (reason r)),
               Log ERROR (StatusCode (status r))])"
  using assms
  by (simp add: handle_response_def bind_logger sys_exit_def bind_Ret logger_def)

text \<open>The amended C8 at a 500 and at a 404.\<close>

theorem handle_response_exits_from_400_witness:
  "handle_response
     (Some \<lparr>status = 500, reason = ''Internal Server Error'', real_url = ''u'',
            content = NotJson\<rparr>) =
     (Exit 1, [Log ERROR (ErrorDuringRequest 500 ''Internal Server Error''),
               Log ERROR (StatusCode 500)]) \<and>
   handle_response
     (Some \<lparr>status = 404, reason = ''Not Found'', real_url = ''u'', content = NotJson\<rparr>) =
     (Exit 1, [Log ERROR (ResourceNotFound ''u'')])"
  using
    handle_response_exits_from_400
      [of "\<lparr>status = 500, reason = ''Internal Server Error'', real_url = ''u'',
            content = NotJson\<rparr>"]
    handle_response_exits_from_400
      [of "\<lparr>status = 404, reason = ''Not Found'', real_url = ''u'', content = NotJson\<rparr>"]
  by simp

section \<open>Authentication\<close>

text \<open>
  Claim C1 says that \<^verbatim>\<open>authenticate\<close> returns true exactly when the probe is answered
  with a status from 200 to 299. For every client and whatever the remote would answer,
  a 200 included, \<^verbatim>\<open>authenticate\<close> returns false and sends nothing: the guard returns
  false, or \<^verbatim>\<open>get_auth_header\<close> raises, or the call \<^verbatim>\<open>session.requests(...)\<close> of
  \<^verbatim>\<open>request\<close> raises \<^verbatim>\<open>TypeError\<close>, and \<^verbatim>\<open>except Exception\<close> turns either exception into
  false. It never raises and never leaves the process, as the claim says.
\<close>

theorem authenticate_returns_false:
  "fst (authenticate self w) = Ret False \<and> sent (snd (authenticate self w)) = []"
proof (cases "jira_username self = [] \<or> jira_password self \<noteq> []")
  case True
  then show ?thesis by (simp add: authenticate_def bind_logger ret_def)
next
  case False
  obtain x t where rq: "request self w (retry_client self) ''mypermissions'' = (x, t)"
    by (cases "request self w (retry_client self) ''mypermissions''")
  have t: "t = [Log INFO (UrlIs (api_url self ''mypermissions''))]"
    using request_raises [of self w "''mypermissions''"] rq by simp
  have x: "\<exists>e. x = Raise e"
    using request_raises [of self w "''mypermissions''"] rq get_auth_header_no_exit [of self]
    by (cases "get_auth_header self") auto
  then obtain e where "x = Raise e" by blast
  then show ?thesis
    using False rq t
    by (simp add: authenticate_def bind_Raise try_except_def bind_logger ret_def)
qed

section \<open>Retries\<close>

text \<open>
  Claim C2 says that every request of the client is retried up to \<^verbatim>\<open>attempts\<close> times on
  a status 500, 502, 503 or 504. With three attempts configured, \<^verbatim>\<open>fetch\<close> on the plain
  session, which is the session \<^verbatim>\<open>select\<close> passes to it, sends the request for a page
  once and turns the 503 that answers it into the empty list; and \<^verbatim>\<open>select\<close> sends
  nothing at all, since its initial request raises \<^verbatim>\<open>TypeError\<close> before it is sent.
\<close>

theorem requests_are_not_retried:
  "attempts demo_api = 3 \<and> 503 \<in> set (retry_statuses demo_api) \<and>
   page flaky_remote 0 1 = Resp (mk_response 503 NotJson) \<and>
   fst (fetch demo_api flaky_remote ClientSession search_x 0) = Ret (JList []) \<and>
   length (sent (snd (fetch demo_api flaky_remote ClientSession search_x 0))) = 1 \<and>
   fst (select demo_api flaky_remote (Some ''project = X'') ''changelog'' ''*all'') = Raise TypeError \<and>
   sent (snd (select demo_api flaky_remote (Some ''project = X'') ''changelog'' ''*all'')) = []"
  by code_simp

section \<open>Pagination\<close>




section \<open>Page failures\<close>



section \<open>The elements of the result\<close>



section \<open>The unassigned result\<close>




section \<open>Quoting of the query\<close>

text \<open>
  Claim C7: in the pattern that \<^verbatim>\<open>select\<close> builds, each of the characters
  \<^verbatim>\<open>/ ? : = , &\<close> of the query stands as it is, and each other reserved character, and
  the space, is replaced by its percent escape.
\<close>

theorem search_pattern_keeps_structural_characters:
  assumes "c \<in> set ''/?:=,&''"
    and "d \<in> set '' #[]@!$()*+;'' \<or> d = CHR 0x27"
  shows "search_pattern self (xs @ c # ys) expand fields' =
           ''search?jql='' @ quote xs ''/?:=,&'' @ c # quote ys ''/?:=,&''
             @ ''&maxResults='' @ str_nat (max_results self)
             @ ''&expand='' @ expand @ ''&fields='' @ fields' \<and>
         search_pattern self (xs @ d # ys) expand fields' =
           ''search?jql='' @ quote xs ''/?:=,&''
             @ CHR ''%'' # hexdigit ((of_char d :: nat) div 16) # hexdigit ((of_char d :: nat) mod 16)
             # quote ys ''/?:=,&''
             @ ''&maxResults='' @ str_nat (max_results self)
             @ ''&expand='' @ expand @ ''&fields='' @ fields'"
proof -
  have c: "quote_byte ''/?:=,&'' c = [c]"
    using assms(1) by (auto simp: quote_byte_def)
  have d: "quote_byte ''/?:=,&'' d =
             [CHR ''%'', hexdigit ((of_char d :: nat) div 16), hexdigit ((of_char d :: nat) mod 16)]"
    using assms(2) by (auto simp: quote_byte_def always_safe_def)
  show ?thesis by (simp add: search_pattern_def quote_def c d)
qed

text \<open>C7 at a slash and at a space.\<close>

theorem search_pattern_keeps_structural_characters_witness:
  "search_pattern demo_api ''a/b'' ''changelog'' ''*all'' =
     ''search?jql=a/b&maxResults=20&expand=changelog&fields=*all'' \<and>
   search_pattern demo_api ''a b'' ''changelog'' ''*all'' =
     ''search?jql=a%20b&maxResults=20&expand=changelog&fields=*all''"
  using search_pattern_keeps_structural_characters
          [where c = "CHR ''/''" and d = "CHR '' ''" and xs = "''a''" and ys = "''b''"
             and self = demo_api and expand = "''changelog''" and fields' = "''*all''"]
  by (simp add: quote_def quote_byte_def always_safe_def hexdigit_def demo_api_def init_def str_nat_20)

end
